theory Spec2Isabelle
  imports Complex_Main
begin

section \<open>Python values, exceptions and observable events\<close>

text \<open>
  The program handles decoded JSON (provider responses), strings from the process
  environment, and dictionaries it builds itself. \<open>pyval\<close> is the fragment of Python's
  values that occurs; dictionaries keep their insertion order and have string keys.
  Floats are taken as exact reals.
\<close>

datatype pyval =
    PNone
  | PBool bool
  | PInt int
  | PFloat real
  | PStr string
  | PList "pyval list"
  | PTuple "pyval list"
  | PDict "(string \<times> pyval) list"

type_synonym pydict = "(string \<times> pyval) list"

datatype error =
    KeyError pyval
  | IndexError
  | TypeError
  | AttributeError
  | ValueError string
  | External string

text \<open>Python's truth value of an object, as \<open>if x:\<close> and \<open>all([...])\<close> test it.\<close>

fun truthy :: "pyval \<Rightarrow> bool" where
  "truthy PNone = False"
| "truthy (PBool b) = b"
| "truthy (PInt i) = (i \<noteq> 0)"
| "truthy (PFloat r) = (r \<noteq> 0)"
| "truthy (PStr s) = (s \<noteq> [])"
| "truthy (PList xs) = (xs \<noteq> [])"
| "truthy (PTuple xs) = (xs \<noteq> [])"
| "truthy (PDict d) = (d \<noteq> [])"

text \<open>\<open>obj[key]\<close> for a string key: only a dictionary can be indexed by a string.\<close>

fun py_getitem :: "pyval \<Rightarrow> string \<Rightarrow> error + pyval" where
  "py_getitem (PDict d) k = (case map_of d k of None \<Rightarrow> Inl (KeyError (PStr k)) | Some v \<Rightarrow> Inr v)"
| "py_getitem _ k = Inl TypeError"

text \<open>\<open>obj[0]\<close>.\<close>

fun py_getitem0 :: "pyval \<Rightarrow> error + pyval" where
  "py_getitem0 (PList xs) = (case xs of [] \<Rightarrow> Inl IndexError | x # _ \<Rightarrow> Inr x)"
| "py_getitem0 (PTuple xs) = (case xs of [] \<Rightarrow> Inl IndexError | x # _ \<Rightarrow> Inr x)"
| "py_getitem0 (PStr s) = (case s of [] \<Rightarrow> Inl IndexError | c # _ \<Rightarrow> Inr (PStr [c]))"
| "py_getitem0 (PDict d) = Inl (KeyError (PInt 0))"
| "py_getitem0 _ = Inl TypeError"

text \<open>\<open>obj.get(key, default)\<close>: only dictionaries have the method.\<close>

fun py_get :: "pyval \<Rightarrow> string \<Rightarrow> pyval \<Rightarrow> error + pyval" where
  "py_get (PDict d) k dflt = Inr (case map_of d k of None \<Rightarrow> dflt | Some v \<Rightarrow> v)"
| "py_get _ k dflt = Inl AttributeError"

text \<open>Iterating over an object, as \<open>list.extend\<close> and \<open>str.join\<close> do.\<close>

fun py_iter :: "pyval \<Rightarrow> error + pyval list" where
  "py_iter (PList xs) = Inr xs"
| "py_iter (PTuple xs) = Inr xs"
| "py_iter (PStr s) = Inr (map (\<lambda>c. PStr [c]) s)"
| "py_iter (PDict d) = Inr (map (\<lambda>kv. PStr (fst kv)) d)"
| "py_iter _ = Inl TypeError"

fun str_items :: "pyval list \<Rightarrow> error + string list" where
  "str_items [] = Inr []"
| "str_items (PStr s # vs) = (case str_items vs of Inl e \<Rightarrow> Inl e | Inr ss \<Rightarrow> Inr (s # ss))"
| "str_items (_ # vs) = Inl TypeError"

fun intersperse :: "string \<Rightarrow> string list \<Rightarrow> string" where
  "intersperse sep [] = []"
| "intersperse sep [s] = s"
| "intersperse sep (s # t # ss) = s @ sep @ intersperse sep (t # ss)"

text \<open>\<open>sep.join(obj)\<close>: every item must be a string.\<close>

definition py_join :: "string \<Rightarrow> pyval \<Rightarrow> error + string" where
  "py_join sep v =
     (case py_iter v of
        Inl e \<Rightarrow> Inl e
      | Inr vs \<Rightarrow> (case str_items vs of Inl e \<Rightarrow> Inl e | Inr ss \<Rightarrow> Inr (intersperse sep ss)))"

text \<open>
  What a run does to the outside is recorded as a list of events, in program order.
  A log record keeps the format string of the source and its arguments unformatted.
  \<open>Write_file\<close> is a file written in full; \<open>Write_failed\<close> is a write that raised, after
  which nothing is known of the file. The table file is recorded as its header row and
  the records its rows are made from.
\<close>

datatype level = DEBUG | INFO | ERROR

datatype logarg = Val pyval | Exc error

datatype file_content =
    Csv "string list" "pydict list"
  | Json pyval

datatype event =
    Log level string "logarg list"
  | Client pyval
  | Geocode pyval
  | Places pyval pyval int "pyval option"
  | Place pyval
  | Requests_get pyval
  | Sleep real
  | Write_file string file_content
  | Write_failed string error
  | Create_client "string option" "string option"
  | Insert string pydict

text \<open>
  Everything outside the program is a parameter: the process environment, the provider
  client, the page fetcher and the markup parser, the regular-expression search with
  the source's pattern, the built-in \<open>int\<close> on strings, the table writer, \<open>open\<close> and
  \<open>json.dump\<close>, the table store, and the order in which the pool's tasks complete. A
  call that raises returns \<open>Inl\<close> (or \<open>Some\<close>, where it returns nothing). The number given to \<open>gmaps_places\<close>, \<open>gmaps_place\<close>,
  \<open>requests_get\<close> and \<open>supabase_insert\<close> counts the calls (it is the index of the
  search page, of the pool task, of the inserted item), so that the same request may be
  answered differently each time.
\<close>

record world =
  getenv :: "string \<Rightarrow> string option"
  gmaps_Client :: "pyval \<Rightarrow> error option"
  gmaps_geocode :: "pyval \<Rightarrow> error + pyval"
  gmaps_places :: "nat \<Rightarrow> pyval \<Rightarrow> pyval \<Rightarrow> int \<Rightarrow> pyval option \<Rightarrow> error + pyval"
  gmaps_place :: "nat \<Rightarrow> pyval \<Rightarrow> error + pyval"
  requests_get :: "nat \<Rightarrow> pyval \<Rightarrow> error + string"
  soup_get_text :: "string \<Rightarrow> error + string"
  re_findall :: "string \<Rightarrow> string list"
  completed_at :: "nat \<Rightarrow> nat"
  supabase_create_client :: "string option \<Rightarrow> string option \<Rightarrow> error option"
  supabase_insert :: "nat \<Rightarrow> string \<Rightarrow> pydict \<Rightarrow> error + pyval"
  builtin_int :: "string \<Rightarrow> error + int"
  DataFrame_to_csv :: "pydict list \<Rightarrow> string \<Rightarrow> error option"
  builtin_open :: "string \<Rightarrow> error option"
  json_dump :: "pyval \<Rightarrow> string \<Rightarrow> error option"

section \<open>The email extractor and the place enricher\<close>

text \<open>
  \<open>extract_email_from_website\<close>: the page is fetched, its text searched with the email
  pattern, and the first match returned; any exception is logged and gives \<open>None\<close>.
\<close>

definition extract_email_from_website :: "world \<Rightarrow> nat \<Rightarrow> pyval \<Rightarrow> event list \<times> pyval" where
  "extract_email_from_website w i url =
     (case requests_get w i url of
        Inl e \<Rightarrow> ([Requests_get url, Log ERROR ''Error extracting email from {}: {}'' [Val url, Exc e]], PNone)
      | Inr body \<Rightarrow>
          (case soup_get_text w body of
             Inl e \<Rightarrow> ([Requests_get url, Log ERROR ''Error extracting email from {}: {}'' [Val url, Exc e]], PNone)
           | Inr text \<Rightarrow>
               (case re_findall w text of
                  [] \<Rightarrow> ([Requests_get url], PNone)
                | m # _ \<Rightarrow> ([Requests_get url], PStr m))))"

text \<open>
  \<open>get_place_details\<close>, run as task \<open>i\<close> of the pool. The rate limiter in front of the
  provider call only delays it (section on the rate limiter), so the call is made
  directly here.
\<close>

definition get_place_details :: "world \<Rightarrow> nat \<Rightarrow> pyval \<Rightarrow> event list \<times> (error + pydict)" where
  "get_place_details w i place_id =
     (case gmaps_place w i place_id of
        Inl e \<Rightarrow> ([Place place_id], Inl e)
      | Inr details \<Rightarrow>
     (case py_getitem details ''result'' of
        Inl e \<Rightarrow> ([Place place_id], Inl e)
      | Inr info \<Rightarrow>
     (case py_get info ''website'' PNone of
        Inl e \<Rightarrow> ([Place place_id], Inl e)
      | Inr website \<Rightarrow>
     (case (if truthy website
            then (case extract_email_from_website w i website of
                    (tr, email) \<Rightarrow>
                      ([Log INFO ''Attempting to extract email from website: {}'' [Val website]] @ tr @
                       [if truthy email then Log INFO ''Email extracted: {}'' [Val email]
                        else Log INFO ''No email found on the website'' []], email))
            else ([], PNone)) of
        (tr, email) \<Rightarrow>
     (case py_get info ''name'' PNone of Inl e \<Rightarrow> (Place place_id # tr, Inl e) | Inr name \<Rightarrow>
     (case py_get info ''formatted_address'' PNone of Inl e \<Rightarrow> (Place place_id # tr, Inl e) | Inr address \<Rightarrow>
     (case py_get info ''formatted_phone_number'' PNone of Inl e \<Rightarrow> (Place place_id # tr, Inl e) | Inr phone \<Rightarrow>
     (case py_get info ''rating'' PNone of Inl e \<Rightarrow> (Place place_id # tr, Inl e) | Inr rating \<Rightarrow>
     (case py_get info ''user_ratings_total'' PNone of Inl e \<Rightarrow> (Place place_id # tr, Inl e) | Inr reviews \<Rightarrow>
     (case py_get info ''types'' (PList []) of Inl e \<Rightarrow> (Place place_id # tr, Inl e) | Inr types \<Rightarrow>
     (case py_join '', '' types of Inl e \<Rightarrow> (Place place_id # tr, Inl e) | Inr joined \<Rightarrow>
        (Place place_id # tr,
         Inr [(''Name'', name), (''Address'', address), (''Phone'', phone), (''Website'', website),
              (''Email'', email), (''Rating'', rating), (''Reviews'', reviews),
              (''Types'', PStr joined)]))))))))))))"

section \<open>The search orchestrator\<close>

definition is_pair :: "pyval \<Rightarrow> bool" where
  \<comment> \<open>\<open>isinstance(location, tuple) and len(location) == 2\<close>\<close>
  "is_pair v = (case v of PTuple xs \<Rightarrow> length xs = 2 | _ \<Rightarrow> False)"

definition bind_err :: "error + 'a \<Rightarrow> ('a \<Rightarrow> error + 'b) \<Rightarrow> error + 'b" where
  "bind_err r f = (case r of Inl e \<Rightarrow> Inl e | Inr x \<Rightarrow> f x)"

text \<open>\<open>geocode_result[0]['geometry']['location'][k]\<close>\<close>

definition first_match_coord :: "pyval \<Rightarrow> string \<Rightarrow> error + pyval" where
  "first_match_coord geocode_result k =
     bind_err (py_getitem0 geocode_result) (\<lambda>m.
     bind_err (py_getitem m ''geometry'') (\<lambda>g.
     bind_err (py_getitem g ''location'') (\<lambda>l. py_getitem l k)))"

text \<open>The body of the \<open>try\<close> in \<open>get_location_coordinates\<close>.\<close>

definition geocode_location :: "world \<Rightarrow> pyval \<Rightarrow> event list \<times> (error + pyval)" where
  "geocode_location w location =
     (case gmaps_geocode w location of
        Inl e \<Rightarrow> ([Geocode location], Inl e)
      | Inr geocode_result \<Rightarrow>
          if truthy geocode_result then
            (case first_match_coord geocode_result ''lat'' of
               Inl e \<Rightarrow> ([Geocode location], Inl e)
             | Inr lat \<Rightarrow>
            (case first_match_coord geocode_result ''lng'' of
               Inl e \<Rightarrow> ([Geocode location], Inl e)
             | Inr lng \<Rightarrow>
                 ([Geocode location,
                   Log DEBUG ''Geocoded {} to coordinates: ({}, {})'' [Val location, Val lat, Val lng]],
                  Inr (PTuple [lat, lng]))))
          else ([Geocode location], Inl (ValueError ''Unable to geocode location: {}'')))"

definition get_location_coordinates :: "world \<Rightarrow> pyval \<Rightarrow> event list \<times> (error + pyval)" where
  "get_location_coordinates w location =
     (if is_pair location then
        ([Log DEBUG ''Attempting to get coordinates for location: {}'' [Val location],
          Log DEBUG ''Location is already in coordinate form: {}'' [Val location]], Inr location)
      else
        (case geocode_location w location of
           (tr, Inl e) \<Rightarrow>
             (Log DEBUG ''Attempting to get coordinates for location: {}'' [Val location] # tr @
              [Log ERROR ''Error geocoding location {}: {}'' [Val location, Exc e]], Inl e)
         | (tr, Inr coords) \<Rightarrow>
             (Log DEBUG ''Attempting to get coordinates for location: {}'' [Val location] # tr,
              Inr coords)))"

text \<open>
  The body of the \<open>try\<close> inside the search loop, for the search call number \<open>i\<close>: the
  provider call (after a two-second wait when a page token is held), then
  \<open>results.extend(places['results'])\<close> and \<open>places.get('next_page_token')\<close>. It gives the
  extended results and the new token, or the exception raised.
\<close>

definition fetch_page ::
  "world \<Rightarrow> pyval \<Rightarrow> pyval \<Rightarrow> int \<Rightarrow> int \<Rightarrow> nat \<Rightarrow> pyval list \<Rightarrow> pyval \<Rightarrow>
   event list \<times> (error + pyval list \<times> pyval)" where
  "fetch_page w query coords radius num_results i results next_page_token =
     (let tok = (if truthy next_page_token then Some next_page_token else None);
          tr = Log DEBUG ''Searching for places. Current results: {}, Target: {}''
                 [Val (PInt (int (length results))), Val (PInt num_results)] #
               (if truthy next_page_token then [Sleep 2] else []) @
               [Places query coords radius tok]
      in case gmaps_places w i query coords radius tok of
           Inl e \<Rightarrow> (tr, Inl e)
         | Inr places \<Rightarrow>
        (case bind_err (py_getitem places ''results'') py_iter of
           Inl e \<Rightarrow> (tr, Inl e)
         | Inr page \<Rightarrow>
        (case py_get places ''next_page_token'' PNone of
           Inl e \<Rightarrow> (tr, Inl e)
         | Inr tok' \<Rightarrow>
             (tr @ [Log INFO ''Fetched {} results so far'' [Val (PInt (int (length (results @ page))))]],
              Inr (results @ page, tok')))))"

text \<open>
  The \<open>while\<close> loop of \<open>get_google_maps_data\<close>. Nothing bounds the number of pages a
  provider may hand out, so the loop need not end: \<open>None\<close> is the run that never leaves
  it. The result is the events of the loop, the accumulated results and the number of
  search calls made.
\<close>

partial_function (option) search_loop ::
  "world \<Rightarrow> pyval \<Rightarrow> pyval \<Rightarrow> int \<Rightarrow> int \<Rightarrow> nat \<Rightarrow> pyval list \<Rightarrow> pyval \<Rightarrow> event list \<Rightarrow>
   (event list \<times> pyval list \<times> nat) option" where
  "search_loop w query coords radius num_results i results next_page_token tr =
     (if int (length results) < num_results then
        (case fetch_page w query coords radius num_results i results next_page_token of
           (tr1, Inl e) \<Rightarrow>
             Some (tr @ tr1 @ [Log ERROR ''Error fetching places: {}'' [Exc e]], results, Suc i)
         | (tr1, Inr (results', tok')) \<Rightarrow>
             if \<not> truthy tok' then
               Some (tr @ tr1 @ [Log DEBUG ''No more pages available'' []], results', Suc i)
             else search_loop w query coords radius num_results (Suc i) results' tok' (tr @ tr1))
      else Some (tr, results, i))"

declare search_loop.simps [code]

text \<open>\<open>results[:num_results]\<close>: a negative bound counts from the end.\<close>

definition py_slice_to :: "'a list \<Rightarrow> int \<Rightarrow> 'a list" where
  "py_slice_to xs n = (if 0 \<le> n then take (nat n) xs else take (nat (int (length xs) + n)) xs)"

text \<open>
  The dictionary comprehension that submits one task per result: \<open>place['place_id']\<close> is
  evaluated outside any \<open>try\<close>, so the first result without the key ends the submission
  with an exception. The function gives the identifiers submitted and that exception.
\<close>

fun submit_all :: "pyval list \<Rightarrow> pyval list \<times> error option" where
  "submit_all [] = ([], None)"
| "submit_all (p # ps) =
     (case py_getitem p ''place_id'' of
        Inl e \<Rightarrow> ([], Some e)
      | Inr pid \<Rightarrow> (case submit_all ps of (ids, r) \<Rightarrow> (pid # ids, r)))"

text \<open>
  \<open>as_completed\<close> yields every future once, in the order of completion: the tasks are
  sorted by their completion time, so every order of completion is some \<open>completed_at\<close>.
\<close>

definition as_completed :: "world \<Rightarrow> 'a list \<Rightarrow> 'a list" where
  "as_completed w futs = map snd (sort_key (\<lambda>p. completed_at w (fst p)) (enumerate 0 futs))"

text \<open>
  The pool: every submitted task runs \<open>get_place_details\<close>; a task that raised is logged
  and left out. The events of the tasks are listed task by task in the order of
  completion (the tasks themselves run interleaved).
\<close>

definition enrich :: "world \<Rightarrow> pyval list \<Rightarrow> event list \<times> (error + pydict list)" where
  "enrich w results =
     (case submit_all results of
        (ids, failure) \<Rightarrow>
          (let futs = as_completed w (map (\<lambda>p. get_place_details w (fst p) (snd p)) (enumerate 0 ids))
           in case failure of
                Some e \<Rightarrow> (concat (map fst futs), Inl e)
              | None \<Rightarrow>
                  (concat (map (\<lambda>f. case snd f of
                                       Inl e \<Rightarrow> fst f @ [Log ERROR ''Error fetching place details: {}'' [Exc e]]
                                     | Inr d \<Rightarrow> fst f) futs),
                   Inr (concat (map (\<lambda>f. case snd f of Inl e \<Rightarrow> [] | Inr d \<Rightarrow> [d]) futs)))))"

definition get_google_maps_data ::
  "world \<Rightarrow> pyval \<Rightarrow> pyval \<Rightarrow> pyval \<Rightarrow> int \<Rightarrow> int \<Rightarrow> (event list \<times> (error + pydict list)) option" where
  "get_google_maps_data w api_key location query num_results radius =
     (case gmaps_Client w api_key of
        Some e \<Rightarrow> Some ([Client api_key], Inl e)
      | None \<Rightarrow>
     (case get_location_coordinates w location of
        (tr1, Inl e) \<Rightarrow>
          Some (Client api_key #
                Log INFO ''Fetching data for query: {} in location: {}'' [Val query, Val location] #
                tr1 @
                [Log ERROR ''Failed to get coordinates for location {}: {}'' [Val location, Exc e]],
                Inr [])
      | (tr1, Inr coords) \<Rightarrow>
     (case search_loop w query coords radius num_results 0 [] PNone [] of
        None \<Rightarrow> None
      | Some (tr2, results, n) \<Rightarrow>
     (case enrich w (py_slice_to results num_results) of
        (tr3, Inl e) \<Rightarrow>
          Some (Client api_key #
                Log INFO ''Fetching data for query: {} in location: {}'' [Val query, Val location] #
                tr1 @ tr2 @ tr3, Inl e)
      | (tr3, Inr data) \<Rightarrow>
          Some (Client api_key #
                Log INFO ''Fetching data for query: {} in location: {}'' [Val query, Val location] #
                tr1 @ tr2 @ tr3 @
                [Log INFO ''Successfully fetched details for {} places'' [Val (PInt (int (length data)))]],
                Inr data)))))"

section \<open>Persistence and remote sync\<close>

text \<open>
  \<open>pd.DataFrame(data)\<close> of a list of dictionaries takes as columns the keys in the order
  in which they first occur, and \<open>to_csv(index=False)\<close> writes the column names as the
  header row and then one row per dictionary. How a cell is written is left to the
  table writer.
\<close>

fun first_seen :: "'a list \<Rightarrow> 'a list \<Rightarrow> 'a list" where
  "first_seen seen [] = []"
| "first_seen seen (x # xs) = (if x \<in> set seen then first_seen seen xs else x # first_seen (x # seen) xs)"

definition DataFrame_columns :: "pydict list \<Rightarrow> string list" where
  "DataFrame_columns data = first_seen [] (concat (map (map fst) data))"

definition to_csv :: "pydict list \<Rightarrow> file_content" where
  "to_csv data = Csv (DataFrame_columns data) data"

text \<open>
  The two halves of \<open>save_to_file\<close>. Neither stands in a \<open>try\<close>: an exception of the
  table writer, of \<open>open\<close> or of \<open>json.dump\<close> leaves the function.
\<close>

definition save_csv :: "world \<Rightarrow> pydict list \<Rightarrow> string \<Rightarrow> event list \<times> (error + unit)" where
  "save_csv w data csv_file =
     (case DataFrame_to_csv w data csv_file of
        Some e \<Rightarrow> ([Write_failed csv_file e], Inl e)
      | None \<Rightarrow>
          ([Write_file csv_file (to_csv data),
            Log INFO ''Data saved to CSV: {}'' [Val (PStr csv_file)]], Inr ()))"

definition save_json :: "world \<Rightarrow> pydict list \<Rightarrow> string \<Rightarrow> event list \<times> (error + unit)" where
  "save_json w data json_file =
     (case builtin_open w json_file of
        Some e \<Rightarrow> ([Write_failed json_file e], Inl e)
      | None \<Rightarrow>
          (case json_dump w (PList (map PDict data)) json_file of
             Some e \<Rightarrow> ([Write_failed json_file e], Inl e)
           | None \<Rightarrow>
               ([Write_file json_file (Json (PList (map PDict data))),
                 Log INFO ''Data saved to JSON: {}'' [Val (PStr json_file)]], Inr ())))"

definition save_to_file ::
  "world \<Rightarrow> pydict list \<Rightarrow> string \<Rightarrow> bool \<Rightarrow> bool \<Rightarrow> event list \<times> (error + unit)" where
  "save_to_file w data output_file output_csv output_json =
     (case (if output_csv then save_csv w data (output_file @ ''.csv'') else ([], Inr ())) of
        (tr1, Inl e) \<Rightarrow> (tr1, Inl e)
      | (tr1, Inr u) \<Rightarrow>
          (case (if output_json then save_json w data (output_file @ ''.json'') else ([], Inr ())) of
             (tr2, r) \<Rightarrow> (tr1 @ tr2, r)))"

text \<open>The loop of \<open>add_to_supabase\<close>; \<open>i\<close> counts the items.\<close>

fun insert_items :: "world \<Rightarrow> string \<Rightarrow> nat \<Rightarrow> pydict list \<Rightarrow> event list" where
  "insert_items w table_name i [] = []"
| "insert_items w table_name i (item # items) =
     Insert table_name item #
     (case supabase_insert w i table_name item of
        Inl e \<Rightarrow> [Log ERROR ''Error adding item to Supabase: {}'' [Exc e]]
      | Inr response_data \<Rightarrow>
          (case map_of item ''Name'' of
             None \<Rightarrow> [Log ERROR ''Error adding item to Supabase: {}'' [Exc (KeyError (PStr ''Name''))]]
           | Some name \<Rightarrow>
               [if truthy response_data
                then Log INFO ''Successfully added item: {} to Supabase'' [Val name]
                else Log ERROR ''Failed to add item: {} to Supabase'' [Val name]])) @
     insert_items w table_name (Suc i) items"

definition add_to_supabase :: "world \<Rightarrow> pydict list \<Rightarrow> event list \<times> (error + unit)" where
  "add_to_supabase w data =
     (case supabase_create_client w (getenv w ''SUPABASE_URL'') (getenv w ''SUPABASE_KEY'') of
        Some e \<Rightarrow> ([Create_client (getenv w ''SUPABASE_URL'') (getenv w ''SUPABASE_KEY'')], Inl e)
      | None \<Rightarrow>
          (Create_client (getenv w ''SUPABASE_URL'') (getenv w ''SUPABASE_KEY'') #
           insert_items w (case getenv w ''SUPABASE_TABLE_NAME'' of
                             None \<Rightarrow> ''google_maps_data'' | Some t \<Rightarrow> t) 0 data,
           Inr ()))"

section \<open>The driver\<close>

text \<open>\<open>str.lower()\<close> on ASCII letters; other characters are left as they are.\<close>

definition lower_char :: "char \<Rightarrow> char" where
  "lower_char c =
     (case map_of (zip ''ABCDEFGHIJKLMNOPQRSTUVWXYZ'' ''abcdefghijklmnopqrstuvwxyz'') c of
        None \<Rightarrow> c | Some l \<Rightarrow> l)"

definition str_lower :: "string \<Rightarrow> string" where
  "str_lower s = map lower_char s"

text \<open>The \<open>config\<close> dictionary that \<open>main\<close> reads from the environment.\<close>

record config =
  GOOGLE_MAPS_API_KEY :: "string option"
  SEARCH_LOCATION :: "string option"
  SEARCH_QUERY :: "string option"
  NUM_RESULTS :: string
  SEARCH_RADIUS :: string
  OUTPUT_FILE :: string
  OUTPUT_CSV :: bool
  OUTPUT_JSON :: bool
  USE_SUPABASE :: bool

definition os_getenv :: "world \<Rightarrow> string \<Rightarrow> string \<Rightarrow> string" where
  \<comment> \<open>\<open>os.getenv(name, default)\<close>\<close>
  "os_getenv w name dflt = (case getenv w name of None \<Rightarrow> dflt | Some v \<Rightarrow> v)"

definition read_config :: "world \<Rightarrow> config" where
  "read_config w =
     \<lparr> GOOGLE_MAPS_API_KEY = getenv w ''GOOGLE_MAPS_API_KEY'',
       SEARCH_LOCATION = getenv w ''SEARCH_LOCATION'',
       SEARCH_QUERY = getenv w ''SEARCH_QUERY'',
       NUM_RESULTS = os_getenv w ''NUM_RESULTS'' ''100'',
       SEARCH_RADIUS = os_getenv w ''SEARCH_RADIUS'' ''50000'',
       OUTPUT_FILE = os_getenv w ''OUTPUT_FILE'' ''output'',
       OUTPUT_CSV = (str_lower (os_getenv w ''OUTPUT_CSV'' ''true'') = ''true''),
       OUTPUT_JSON = (str_lower (os_getenv w ''OUTPUT_JSON'' ''true'') = ''true''),
       USE_SUPABASE = (str_lower (os_getenv w ''USE_SUPABASE'' ''false'') = ''true'') \<rparr>"

definition missing_config :: "config \<Rightarrow> string list" where
  \<comment> \<open>the keys whose value is \<open>None\<close>, in the dictionary's order\<close>
  "missing_config c =
     (if GOOGLE_MAPS_API_KEY c = None then [''GOOGLE_MAPS_API_KEY''] else []) @
     (if SEARCH_LOCATION c = None then [''SEARCH_LOCATION''] else []) @
     (if SEARCH_QUERY c = None then [''SEARCH_QUERY''] else [])"

definition env_set :: "world \<Rightarrow> string \<Rightarrow> bool" where
  \<comment> \<open>the truth value of \<open>os.getenv(name)\<close>: set and not empty\<close>
  "env_set w name = (case getenv w name of None \<Rightarrow> False | Some v \<Rightarrow> v \<noteq> [])"

definition log_config :: "config \<Rightarrow> string \<Rightarrow> string \<Rightarrow> int \<Rightarrow> int \<Rightarrow> event list" where
  "log_config c location query num_results radius =
     [Log INFO ''Current configuration:'' [],
      Log INFO ''{}: {}'' [Val (PStr ''SEARCH_LOCATION''), Val (PStr location)],
      Log INFO ''{}: {}'' [Val (PStr ''SEARCH_QUERY''), Val (PStr query)],
      Log INFO ''{}: {}'' [Val (PStr ''NUM_RESULTS''), Val (PInt num_results)],
      Log INFO ''{}: {}'' [Val (PStr ''SEARCH_RADIUS''), Val (PInt radius)],
      Log INFO ''{}: {}'' [Val (PStr ''OUTPUT_FILE''), Val (PStr (OUTPUT_FILE c))],
      Log INFO ''{}: {}'' [Val (PStr ''OUTPUT_CSV''), Val (PBool (OUTPUT_CSV c))],
      Log INFO ''{}: {}'' [Val (PStr ''OUTPUT_JSON''), Val (PBool (OUTPUT_JSON c))],
      Log INFO ''{}: {}'' [Val (PStr ''USE_SUPABASE''), Val (PBool (USE_SUPABASE c))],
      Log DEBUG ''Search location from config: {}'' [Val (PStr location)]]"

text \<open>
  The part of \<open>main\<close> after the data came back non-empty: the files, then the sync if
  it is enabled and configured.
\<close>

definition persist_and_sync :: "world \<Rightarrow> config \<Rightarrow> pydict list \<Rightarrow> event list \<times> (error + unit)" where
  "persist_and_sync w c data =
     (case save_to_file w data (OUTPUT_FILE c) (OUTPUT_CSV c) (OUTPUT_JSON c) of
        (trf, Inl e) \<Rightarrow> (trf, Inl e)
      | (trf, Inr u) \<Rightarrow>
          if USE_SUPABASE c then
            (if \<not> (env_set w ''SUPABASE_URL'' \<and> env_set w ''SUPABASE_KEY'' \<and> env_set w ''SUPABASE_TABLE_NAME'')
             then (trf @
                   [Log ERROR ''Supabase is enabled but missing required configuration. Please check your .env file for SUPABASE_URL, SUPABASE_KEY, and SUPABASE_TABLE_NAME.'' []],
                   Inr ())
             else (case add_to_supabase w data of (tr, r) \<Rightarrow> (trf @ tr, r)))
          else (trf, Inr ()))"

text \<open>
  \<open>main\<close>. The result is the events of the run and how it ended: \<open>Inr ()\<close> for a return,
  \<open>Inl e\<close> for an exception that nothing caught; \<open>None\<close> is the run whose search loop
  never ends.
  The two \<open>int(...)\<close> conversions share one \<open>try\<close>: the first that raises is
  logged and ends the run. What \<open>int\<close> accepts is the parameter \<open>builtin_int\<close>.
\<close>

definition main :: "world \<Rightarrow> (event list \<times> (error + unit)) option" where
  "main w =
     (let c = read_config w in
      case (GOOGLE_MAPS_API_KEY c, SEARCH_LOCATION c, SEARCH_QUERY c) of
        (Some api_key, Some location, Some query) \<Rightarrow>
          (case builtin_int w (NUM_RESULTS c) of
             Inl e \<Rightarrow> Some ([Log ERROR ''Error in configuration values: {}'' [Exc e]], Inr ())
           | Inr num_results \<Rightarrow>
          (case builtin_int w (SEARCH_RADIUS c) of
             Inl e \<Rightarrow> Some ([Log ERROR ''Error in configuration values: {}'' [Exc e]], Inr ())
           | Inr radius \<Rightarrow>
          (case get_google_maps_data w (PStr api_key) (PStr location) (PStr query) num_results radius of
             None \<Rightarrow> None
           | Some (tr, Inl e) \<Rightarrow> Some (log_config c location query num_results radius @ tr, Inl e)
           | Some (tr, Inr data) \<Rightarrow>
               if data = [] then
                 Some (log_config c location query num_results radius @ tr @
                       [Log ERROR ''No data retrieved. Check the logs for errors.'' []], Inr ())
               else
                 (case persist_and_sync w c data of
                    (tr', r) \<Rightarrow> Some (log_config c location query num_results radius @ tr @ tr', r)))))
      | _ \<Rightarrow>
          Some (Log ERROR ''Missing required configuration. Please check your .env file.'' [] #
                map (\<lambda>item. Log ERROR ''Missing configuration: {}'' [Val (PStr item)]) (missing_config c),
                Inr ()))"

section \<open>The rate limiter\<close>

text \<open>
  The decorator object: its two parameters and the list of recorded timestamps.
  Time is the wall clock as a real number of seconds.
\<close>

record RateLimiter =
  max_calls :: int
  period :: real
  calls :: "real list"

text \<open>
  One call through \<open>wrapped\<close>, up to the point where the wrapped function is entered.
  \<open>clock\<close> is the time of the previous event; \<open>a\<close> is the time that passes until
  \<open>now = time.time()\<close> is read, and \<open>b\<close> the time that passes between that reading and the
  second \<open>time.time()\<close> beyond the sleep that was asked for (\<open>time.sleep\<close> may take
  longer). The result is the limiter with the new timestamp recorded, and that
  timestamp. \<open>self.calls[0]\<close> on an empty list raises.
\<close>

definition wrapped :: "RateLimiter \<Rightarrow> real \<Rightarrow> real \<Rightarrow> real \<Rightarrow> error + RateLimiter \<times> real" where
  "wrapped self clock a b =
     (let now = clock + a;
          kept = filter (\<lambda>t. now - t < period self) (calls self)
      in if max_calls self \<le> int (length kept) then
           (case kept of
              [] \<Rightarrow> Inl IndexError
            | oldest # _ \<Rightarrow>
                (let sleep_time = period self - (now - oldest);
                     stamp = now + (if sleep_time > 0 then sleep_time else 0) + b
                 in Inr (self\<lparr>calls := kept @ [stamp]\<rparr>, stamp)))
         else Inr (self\<lparr>calls := kept @ [now + b]\<rparr>, now + b))"

text \<open>
  A single consumer making one call after the other; each call comes with its two
  delays. \<open>hist\<close> collects every timestamp that was recorded.
\<close>

fun run_calls ::
  "RateLimiter \<Rightarrow> real \<Rightarrow> real list \<Rightarrow> (real \<times> real) list \<Rightarrow> error + RateLimiter \<times> real list" where
  "run_calls self clock hist [] = Inr (self, hist)"
| "run_calls self clock hist (d # ds) =
     (case wrapped self clock (fst d) (snd d) of
        Inl e \<Rightarrow> Inl e
      | Inr (self', stamp) \<Rightarrow> run_calls self' stamp (hist @ [stamp]) ds)"

text \<open>The limiter of \<open>rate_limited_api_call\<close>: \<open>RateLimiter(RATE_LIMIT, RATE_LIMIT_PERIOD)\<close>.\<close>

definition RATE_LIMIT :: int where
  "RATE_LIMIT = 10"

definition RATE_LIMIT_PERIOD :: real where
  "RATE_LIMIT_PERIOD = 1"

definition rate_limiter :: RateLimiter where
  "rate_limiter = \<lparr> max_calls = RATE_LIMIT, period = RATE_LIMIT_PERIOD, calls = [] \<rparr>"

section \<open>Reading the events of a run\<close>

fun is_Log :: "event \<Rightarrow> bool" where
  "is_Log (Log l m args) = True"
| "is_Log _ = False"

fun is_Geocode :: "event \<Rightarrow> bool" where
  "is_Geocode (Geocode l) = True"
| "is_Geocode _ = False"



fun is_Requests_get :: "event \<Rightarrow> bool" where
  "is_Requests_get (Requests_get u) = True"
| "is_Requests_get _ = False"



text \<open>The keys of the dictionary that \<open>get_place_details\<close> returns.\<close>

definition PlaceRecord_fields :: "string list" where
  "PlaceRecord_fields =
     [''Name'', ''Address'', ''Phone'', ''Website'', ''Email'', ''Rating'', ''Reviews'', ''Types'']"

text \<open>
  The spellings of \<open>true\<close> in upper and lower case: what "equals the string true,
  case-insensitively" means, written without \<open>str_lower\<close>.
\<close>

definition true_spellings :: "string set" where
  "true_spellings =
     {[a, b, c, d] | a b c d.
        a \<in> {CHR ''t'', CHR ''T''} \<and> b \<in> {CHR ''r'', CHR ''R''} \<and>
        c \<in> {CHR ''u'', CHR ''U''} \<and> d \<in> {CHR ''e'', CHR ''E''}}"

section \<open>A sample environment\<close>

text \<open>
  A provider that knows every location but \<open>Nowhere\<close>, answers a search with three
  pages of twenty places (a page token on the first two), and has no website for any
  place; the page fetcher times out; the store accepts every row; files can be written
  anywhere but under \<open>/readonly/\<close>. Its \<open>int\<close> reads plain decimal text: white space
  around an optional sign and digits, with single underscores allowed between digits.
\<close>

definition is_space :: "char \<Rightarrow> bool" where
  "is_space c = (c \<in> set [CHR '' '', CHR 0x09, CHR 0x0A, CHR 0x0B, CHR 0x0C, CHR 0x0D])"

definition str_strip :: "string \<Rightarrow> string" where
  "str_strip s = rev (dropWhile is_space (rev (dropWhile is_space s)))"

definition digit_val :: "char \<Rightarrow> int option" where
  "digit_val c =
     map_of [(CHR ''0'', 0), (CHR ''1'', 1), (CHR ''2'', 2), (CHR ''3'', 3), (CHR ''4'', 4),
             (CHR ''5'', 5), (CHR ''6'', 6), (CHR ''7'', 7), (CHR ''8'', 8), (CHR ''9'', 9)] c"

fun parse_digits :: "int \<Rightarrow> bool \<Rightarrow> string \<Rightarrow> int option" where
  "parse_digits acc after_digit [] = (if after_digit then Some acc else None)"
| "parse_digits acc after_digit (c # cs) =
     (case digit_val c of
        Some d \<Rightarrow> parse_digits (10 * acc + d) True cs
      | None \<Rightarrow> if c = CHR ''_'' \<and> after_digit then parse_digits acc False cs else None)"

definition sample_int :: "string \<Rightarrow> error + int" where
  "sample_int s =
     (case (case str_strip s of
              [] \<Rightarrow> None
            | c # cs \<Rightarrow>
                if c = CHR ''-'' then map_option uminus (parse_digits 0 False cs)
                else if c = CHR ''+'' then parse_digits 0 False cs
                else parse_digits 0 False (c # cs)) of
        None \<Rightarrow> Inl (ValueError (''invalid literal for int() with base 10: '' @ s))
      | Some n \<Rightarrow> if 4300 < length (filter (\<lambda>c. digit_val c \<noteq> None) s)
                  then Inl (ValueError ''Exceeds the limit (4300 digits) for integer string conversion'')
                  else Inr n)"

definition read_only :: "string \<Rightarrow> error option" where
  "read_only path =
     (if take 10 path = ''/readonly/'' then Some (External ''PermissionError'') else None)"

definition sample_page :: "nat \<Rightarrow> pyval" where
  "sample_page i =
     PDict ((''results'', PList (replicate 20 (PDict [(''place_id'', PStr ''ChIJ'')]))) #
            (if i < 2 then [(''next_page_token'', PStr ''token'')] else []))"

definition sample_world :: "(string \<times> string) list \<Rightarrow> world" where
  "sample_world env =
     \<lparr> getenv = map_of env,
       gmaps_Client = (\<lambda>key. None),
       gmaps_geocode = (\<lambda>location.
          if location = PStr ''Nowhere'' then Inr (PList [])
          else Inr (PList [PDict [(''geometry'',
                  PDict [(''location'', PDict [(''lat'', PFloat 40), (''lng'', PFloat (- 73))])])]])),
       gmaps_places = (\<lambda>i query location radius page_token.
          if i < 3 then Inr (sample_page i) else Inl (External ''INVALID_REQUEST'')),
       gmaps_place = (\<lambda>i place_id. Inr (PDict [(''result'', PDict [(''name'', PStr ''Cafe'')])])),
       requests_get = (\<lambda>i url. Inl (External ''timeout'')),
       soup_get_text = (\<lambda>body. Inr body),
       re_findall = (\<lambda>text. []),
       completed_at = (\<lambda>i. i),
       supabase_create_client = (\<lambda>url key. None),
       supabase_insert = (\<lambda>i table_name item. Inr (PList [PDict item])),
       builtin_int = sample_int,
       DataFrame_to_csv = (\<lambda>data path. read_only path),
       builtin_open = read_only,
       json_dump = (\<lambda>obj path. None) \<rparr>"

definition sample_env :: "(string \<times> string) list" where
  "sample_env =
     [(''GOOGLE_MAPS_API_KEY'', ''AIza''), (''SEARCH_LOCATION'', ''40.0,-73.0''),
      (''SEARCH_QUERY'', ''coffee''), (''NUM_RESULTS'', ''2'')]"


section \<open>Invariant of the rate limiter\<close>

text \<open>The timestamps of \<open>ts\<close> that are less than \<open>P\<close> seconds old at time \<open>m\<close>.\<close>

definition fresh :: "real \<Rightarrow> real \<Rightarrow> real list \<Rightarrow> real list" where
  "fresh P m ts = filter (\<lambda>t. m - t < P) ts"

text \<open>
  What holds between two calls: no recorded timestamp lies in the future, the limiter's
  list and the full history agree on the fresh timestamps, and no window of the history
  holds more than \<open>max_calls\<close> of them.
\<close>

definition limiter_inv :: "RateLimiter \<Rightarrow> real \<Rightarrow> real list \<Rightarrow> bool" where
  "limiter_inv self clock hist \<longleftrightarrow>
     (\<forall>t \<in> set hist. t \<le> clock) \<and>
     fresh (period self) clock hist = fresh (period self) clock (calls self) \<and>
     (\<forall>s. int (length (filter (\<lambda>t. s \<le> t \<and> t < s + period self) hist)) \<le> max_calls self) \<and>
     (\<forall>s. int (length (filter (\<lambda>t. s < t \<and> t \<le> s + period self) hist)) \<le> max_calls self)"

section \<open>The rate limiter keeps its bound\<close>

lemma filter_len_mono: "(\<And>x. x \<in> set xs \<Longrightarrow> P x \<Longrightarrow> Q x) \<Longrightarrow> length (filter P xs) \<le> length (filter Q xs)"
  by (induction xs) auto

lemma filter_filter_imp: "(\<And>x. x \<in> set xs \<Longrightarrow> P x \<Longrightarrow> Q x) \<Longrightarrow> filter P (filter Q xs) = filter P xs"
  by (induction xs) auto

lemma fresh_later: "c \<le> m \<Longrightarrow> fresh P m (fresh P c ts) = fresh P m ts"
  unfolding fresh_def by (rule filter_filter_imp) auto

lemma wrapped_step:
  assumes inv: "limiter_inv self clock hist" and pos: "1 \<le> max_calls self"
    and a: "0 \<le> a" and b: "0 \<le> b"
  shows "\<exists>self' stamp. wrapped self clock a b = Inr (self', stamp) \<and>
           max_calls self' = max_calls self \<and> period self' = period self \<and>
           limiter_inv self' stamp (hist @ [stamp])"
proof -
  define P where "P = period self"
  define N where "N = max_calls self"
  define now where "now = clock + a"
  define kept where "kept = fresh P now (calls self)"
  have le: "\<forall>t \<in> set hist. t \<le> clock" using inv by (simp add: limiter_inv_def)
  have eq: "fresh P clock hist = fresh P clock (calls self)"
    using inv by (simp add: limiter_inv_def P_def)
  have win2: "\<forall>s. int (length (filter (\<lambda>t. s < t \<and> t \<le> s + P) hist)) \<le> N"
    using inv by (simp add: limiter_inv_def P_def N_def)
  have win1: "\<forall>s. int (length (filter (\<lambda>t. s \<le> t \<and> t < s + P) hist)) \<le> N"
    using inv by (simp add: limiter_inv_def P_def N_def)
  have now: "clock \<le> now" using a by (simp add: now_def)
  have kept_hist: "kept = fresh P now hist"
  proof -
    have "fresh P now hist = fresh P now (fresh P clock hist)" using fresh_later[OF now] by simp
    also have "\<dots> = fresh P now (fresh P clock (calls self))" using eq by simp
    also have "\<dots> = kept" using fresh_later[OF now] by (simp add: kept_def)
    finally show ?thesis by simp
  qed
  have kept_le: "int (length kept) \<le> N"
  proof -
    have "length kept \<le> length (filter (\<lambda>t. now - P < t \<and> t \<le> (now - P) + P) hist)"
      unfolding kept_hist fresh_def using le now by (intro filter_len_mono) auto
    then show ?thesis using win2[rule_format, of "now - P"] by linarith
  qed
  \<comment> \<open>the stamp the call records, and what is still fresh at that time\<close>
  have "\<exists>stamp. wrapped self clock a b = Inr (self\<lparr>calls := kept @ [stamp]\<rparr>, stamp) \<and> now \<le> stamp \<and>
           int (length (fresh P stamp kept)) < N"
  proof (cases "N \<le> int (length kept)")
    case False
    then have "wrapped self clock a b = Inr (self\<lparr>calls := kept @ [now + b]\<rparr>, now + b)"
      by (simp add: wrapped_def Let_def kept_def fresh_def now_def P_def N_def)
    moreover have "length (fresh P (now + b) kept) \<le> length kept" by (simp add: fresh_def)
    ultimately show ?thesis using False b by (intro exI[of _ "now + b"]) auto
  next
    case True
    then have len: "int (length kept) = N" using kept_le by simp
    then obtain oldest rest where k: "kept = oldest # rest" using pos N_def by (cases kept) auto
    define stamp where "stamp = now + (if P - (now - oldest) > 0 then P - (now - oldest) else 0) + b"
    have w: "wrapped self clock a b = Inr (self\<lparr>calls := kept @ [stamp]\<rparr>, stamp)"
      using True k
      by (simp add: wrapped_def Let_def kept_def[symmetric] fresh_def[symmetric] now_def[symmetric]
          P_def[symmetric] N_def[symmetric] stamp_def)
    have st: "now \<le> stamp" "oldest + P \<le> stamp" using b by (auto simp: stamp_def)
    have "fresh P stamp kept = fresh P stamp rest" using st by (simp add: k fresh_def)
    moreover have "length (fresh P stamp rest) \<le> length rest" by (simp add: fresh_def)
    ultimately have "int (length (fresh P stamp kept)) < N" using len k by simp
    then show ?thesis using w st by blast
  qed
  then obtain stamp where w: "wrapped self clock a b = Inr (self\<lparr>calls := kept @ [stamp]\<rparr>, stamp)"
    and st: "now \<le> stamp" and few: "int (length (fresh P stamp kept)) < N" by blast
  have fresh_hist: "fresh P stamp hist = fresh P stamp kept"
    using fresh_later[OF st, of P hist] by (simp add: kept_hist)
  have i1: "\<forall>t \<in> set (hist @ [stamp]). t \<le> stamp" using le now st by auto
  have i2: "fresh P stamp (hist @ [stamp]) = fresh P stamp (kept @ [stamp])"
    using fresh_hist by (simp add: fresh_def)
  have i3: "int (length (filter (\<lambda>t. s \<le> t \<and> t < s + P) (hist @ [stamp]))) \<le> N" for s
  proof (cases "s \<le> stamp \<and> stamp < s + P")
    case False
    then show ?thesis using win1[rule_format, of s] by auto
  next
    case True
    have "length (filter (\<lambda>t. s \<le> t \<and> t < s + P) hist) \<le> length (fresh P stamp hist)"
      unfolding fresh_def using True by (intro filter_len_mono) auto
    then show ?thesis using few fresh_hist True by simp
  qed
  have i4: "int (length (filter (\<lambda>t. s < t \<and> t \<le> s + P) (hist @ [stamp]))) \<le> N" for s
  proof (cases "s < stamp \<and> stamp \<le> s + P")
    case False
    then show ?thesis using win2[rule_format, of s] by auto
  next
    case True
    have "length (filter (\<lambda>t. s < t \<and> t \<le> s + P) hist) \<le> length (fresh P stamp hist)"
      unfolding fresh_def using True by (intro filter_len_mono) auto
    then show ?thesis using few fresh_hist True by simp
  qed
  have "limiter_inv (self\<lparr>calls := kept @ [stamp]\<rparr>) stamp (hist @ [stamp])"
    unfolding limiter_inv_def using i1 i2 i3 i4 by (simp add: P_def N_def)
  then show ?thesis using w by simp
qed

lemma run_calls_inv:
  assumes "limiter_inv self clock hist" "1 \<le> max_calls self" "\<forall>d \<in> set ds. 0 \<le> fst d \<and> 0 \<le> snd d"
  shows "\<exists>self' hist'. run_calls self clock hist ds = Inr (self', hist') \<and>
           length hist' = length hist + length ds \<and>
           max_calls self' = max_calls self \<and> period self' = period self \<and>
           (\<forall>s. int (length (filter (\<lambda>t. s \<le> t \<and> t < s + period self) hist')) \<le> max_calls self) \<and>
           (\<forall>s. int (length (filter (\<lambda>t. s < t \<and> t \<le> s + period self) hist')) \<le> max_calls self)"
  using assms
proof (induction ds arbitrary: self clock hist)
  case Nil
  then show ?case by (simp add: limiter_inv_def)
next
  case (Cons d ds)
  from wrapped_step[OF Cons.prems(1,2), of "fst d" "snd d"] Cons.prems(3)
  obtain self' stamp where w: "wrapped self clock (fst d) (snd d) = Inr (self', stamp)"
    and m: "max_calls self' = max_calls self" and p: "period self' = period self"
    and i: "limiter_inv self' stamp (hist @ [stamp])" by auto
  from Cons.IH[OF i] m p Cons.prems(2,3) w show ?case by auto
qed

text \<open>
  Claim C6. A single consumer calls through the rate limiter, any number of times; the
  clock never runs backwards and a sleep lasts at least as long as asked (the delays are
  not negative), and the limiter allows at least one call per period. Then every call
  gets through, and among all the timestamps recorded no window of \<open>period\<close> seconds,
  closed at one end and open at the other, holds more than \<open>max_calls\<close> of them.
\<close>

theorem rate_limiter_window:
  assumes "1 \<le> max_calls self" and "calls self = []"
    and "\<forall>d \<in> set ds. 0 \<le> fst d \<and> 0 \<le> snd d"
  shows "\<exists>self' hist. run_calls self clock [] ds = Inr (self', hist) \<and> length hist = length ds \<and>
           (\<forall>s. int (length (filter (\<lambda>t. s \<le> t \<and> t < s + period self) hist)) \<le> max_calls self) \<and>
           (\<forall>s. int (length (filter (\<lambda>t. s < t \<and> t \<le> s + period self) hist)) \<le> max_calls self)"
proof -
  have "limiter_inv self clock []" using assms(1,2) by (simp add: limiter_inv_def fresh_def)
  from run_calls_inv[OF this assms(1,3)] show ?thesis by auto
qed


theorem rate_limiter_window_witness:
  "1 \<le> max_calls rate_limiter \<and> calls rate_limiter = [] \<and>
   list_all (\<lambda>d. 0 \<le> fst d \<and> 0 \<le> snd d)
     ([(0, 0), (0, 0), (0, 0), (0, 0), (0, 0), (0, 0), (0, 0), (0, 0), (0, 0), (0, 0), (0, 0), (1/2, 1/4)] :: (real \<times> real) list) \<and>
   run_calls rate_limiter 0 []
     [(0, 0), (0, 0), (0, 0), (0, 0), (0, 0), (0, 0), (0, 0), (0, 0), (0, 0), (0, 0), (0, 0), (1/2, 1/4)]
     = Inr (\<lparr>max_calls = 10, period = 1, calls = [1, 7/4]\<rparr>, [0, 0, 0, 0, 0, 0, 0, 0, 0, 0, 1, 7/4]) \<and>
   (\<forall>s. int (length (filter (\<lambda>t. s \<le> t \<and> t < s + 1) [0, 0, 0, 0, 0, 0, 0, 0, 0, 0, 1, 7/4 :: real])) \<le> 10)"
proof -
  let ?ds = "([(0, 0), (0, 0), (0, 0), (0, 0), (0, 0), (0, 0), (0, 0), (0, 0), (0, 0), (0, 0), (0, 0), (1/2, 1/4)] :: (real \<times> real) list)"
  have h1: "1 \<le> max_calls rate_limiter" and h2: "calls rate_limiter = []"
    by (simp_all add: rate_limiter_def RATE_LIMIT_def)
  have h3: "\<forall>d \<in> set ?ds. 0 \<le> fst d \<and> 0 \<le> snd d" by simp
  have run: "run_calls rate_limiter 0 [] ?ds
      = Inr (\<lparr>max_calls = 10, period = 1, calls = [1, 7/4]\<rparr>, [0, 0, 0, 0, 0, 0, 0, 0, 0, 0, 1, 7/4])"
    by (simp add: wrapped_def Let_def rate_limiter_def RATE_LIMIT_def RATE_LIMIT_PERIOD_def)
  from rate_limiter_window [OF h1 h2 h3, of 0] run
  have "\<forall>s. int (length (filter (\<lambda>t. s \<le> t \<and> t < s + period rate_limiter) [0, 0, 0, 0, 0, 0, 0, 0, 0, 0, 1, 7/4 :: real])) \<le> max_calls rate_limiter"
    by simp
  then have "\<forall>s. int (length (filter (\<lambda>t. s \<le> t \<and> t < s + 1) [0, 0, 0, 0, 0, 0, 0, 0, 0, 0, 1, 7/4 :: real])) \<le> 10"
    by (simp add: rate_limiter_def RATE_LIMIT_def RATE_LIMIT_PERIOD_def)
  with h1 h2 run show ?thesis by simp
qed

section \<open>The enricher\<close>

text \<open>
  Claim C3. In every record that \<open>get_place_details\<close> returns, the email is other than
  \<open>None\<close> only if the website is present and not empty; and when the place has no
  website (absent, \<open>None\<close> or empty), the page fetcher is not called at all and the
  email is \<open>None\<close>.
\<close>

theorem email_only_with_website:
  assumes "get_place_details w i place_id = (tr, Inr r)"
  shows "\<exists>website email.
           map_of r ''Website'' = Some website \<and> map_of r ''Email'' = Some email \<and>
           (email = PNone \<or> truthy website) \<and>
           (truthy website \<or> (email = PNone \<and> filter is_Requests_get tr = []))"
  using assms
  by (auto simp: get_place_details_def split: sum.splits if_splits prod.splits)

theorem email_only_with_website_witness:
  "get_place_details (sample_world []) 0 (PStr ''ChIJ'') =
     ([Place (PStr ''ChIJ'')],
      Inr [(''Name'', PStr ''Cafe''), (''Address'', PNone), (''Phone'', PNone), (''Website'', PNone),
           (''Email'', PNone), (''Rating'', PNone), (''Reviews'', PNone), (''Types'', PStr [])]) \<and>
   (\<exists>website email.
      map_of [(''Name'', PStr ''Cafe''), (''Address'', PNone), (''Phone'', PNone), (''Website'', PNone),
           (''Email'', PNone), (''Rating'', PNone), (''Reviews'', PNone), (''Types'', PStr [])] ''Website'' = Some website \<and>
      map_of [(''Name'', PStr ''Cafe''), (''Address'', PNone), (''Phone'', PNone), (''Website'', PNone),
           (''Email'', PNone), (''Rating'', PNone), (''Reviews'', PNone), (''Types'', PStr [])] ''Email'' = Some email \<and>
      (email = PNone \<or> truthy website) \<and>
      (truthy website \<or> (email = PNone \<and> filter is_Requests_get [Place (PStr ''ChIJ'')] = [])))"
proof -
  have ev: "get_place_details (sample_world []) 0 (PStr ''ChIJ'') =
     ([Place (PStr ''ChIJ'')],
      Inr [(''Name'', PStr ''Cafe''), (''Address'', PNone), (''Phone'', PNone), (''Website'', PNone),
           (''Email'', PNone), (''Rating'', PNone), (''Reviews'', PNone), (''Types'', PStr [])])"
    by (simp add: get_place_details_def sample_world_def py_join_def)
  from email_only_with_website [OF ev] ev show ?thesis by blast
qed

section \<open>The boolean options\<close>

lemma lower_char_t: "lower_char c = CHR ''t'' \<longleftrightarrow> c = CHR ''t'' \<or> c = CHR ''T''"
  by (auto simp: lower_char_def split: if_splits)

lemma lower_char_r: "lower_char c = CHR ''r'' \<longleftrightarrow> c = CHR ''r'' \<or> c = CHR ''R''"
  by (auto simp: lower_char_def split: if_splits)

lemma lower_char_u: "lower_char c = CHR ''u'' \<longleftrightarrow> c = CHR ''u'' \<or> c = CHR ''U''"
  by (auto simp: lower_char_def split: if_splits)

lemma lower_char_e: "lower_char c = CHR ''e'' \<longleftrightarrow> c = CHR ''e'' \<or> c = CHR ''E''"
  by (auto simp: lower_char_def split: if_splits)

lemma str_lower_true: "str_lower v = ''true'' \<longleftrightarrow> v \<in> true_spellings"
proof
  assume h: "str_lower v = ''true''"
  then have "length (str_lower v) = 4" by simp
  then have "length v = 4" by (simp add: str_lower_def)
  then obtain a b c d where v: "v = [a, b, c, d]"
    by (auto simp: length_Suc_conv numeral_eq_Suc)
  with h show "v \<in> true_spellings"
    by (simp add: str_lower_def true_spellings_def lower_char_t lower_char_r lower_char_u lower_char_e)
next
  assume "v \<in> true_spellings"
  then obtain a b c d where "v = [a, b, c, d]"
    "a \<in> {CHR ''t'', CHR ''T''}" "b \<in> {CHR ''r'', CHR ''R''}"
    "c \<in> {CHR ''u'', CHR ''U''}" "d \<in> {CHR ''e'', CHR ''E''}"
    by (auto simp: true_spellings_def)
  then show "str_lower v = ''true''"
    by (simp add: str_lower_def lower_char_t lower_char_r lower_char_u lower_char_e)
qed

text \<open>
  Claim C10. \<open>OUTPUT_CSV\<close> and \<open>OUTPUT_JSON\<close> are true exactly when the variable is unset
  or is \<open>true\<close> in some mix of upper and lower case; \<open>USE_SUPABASE\<close> is true exactly when
  the variable is set to such a spelling. Any other value, \<open>1\<close> and \<open>yes\<close> among them, is
  taken as false.
\<close>

theorem boolean_options:
  "OUTPUT_CSV (read_config w) =
     (case getenv w ''OUTPUT_CSV'' of None \<Rightarrow> True | Some v \<Rightarrow> v \<in> true_spellings) \<and>
   OUTPUT_JSON (read_config w) =
     (case getenv w ''OUTPUT_JSON'' of None \<Rightarrow> True | Some v \<Rightarrow> v \<in> true_spellings) \<and>
   USE_SUPABASE (read_config w) =
     (case getenv w ''USE_SUPABASE'' of None \<Rightarrow> False | Some v \<Rightarrow> v \<in> true_spellings) \<and>
   ''1'' \<notin> true_spellings \<and> ''yes'' \<notin> true_spellings \<and> ''True'' \<in> true_spellings"
  by (simp add: read_config_def os_getenv_def str_lower_true [symmetric] split: option.splits)
    (simp add: str_lower_def lower_char_def)

theorem boolean_options_witness:
  "OUTPUT_CSV (read_config (sample_world [(''OUTPUT_CSV'', ''yes''), (''USE_SUPABASE'', ''TRUE'')])) = False \<and>
   OUTPUT_JSON (read_config (sample_world [(''OUTPUT_CSV'', ''yes''), (''USE_SUPABASE'', ''TRUE'')])) = True \<and>
   USE_SUPABASE (read_config (sample_world [(''OUTPUT_CSV'', ''yes''), (''USE_SUPABASE'', ''TRUE'')])) = True"
  using boolean_options [of "sample_world [(''OUTPUT_CSV'', ''yes''), (''USE_SUPABASE'', ''TRUE'')]"]
  by (simp add: sample_world_def true_spellings_def)

section \<open>Location resolution\<close>

lemma geocode_location_events:
  "filter is_Geocode (fst (geocode_location w location)) = [Geocode location]"
  by (simp add: geocode_location_def split: sum.splits)



text \<open>
  Claim C1, as the code has it. Given a tuple of two coordinates,
  \<open>get_location_coordinates\<close> returns it as it is and makes no geocoding call; given
  anything else it makes exactly one geocoding call, with the location as received. A
  string is not a tuple, whatever it spells.
\<close>

theorem coordinates_used_verbatim:
  "get_location_coordinates w (PTuple [lat, lng]) =
     ([Log DEBUG ''Attempting to get coordinates for location: {}'' [Val (PTuple [lat, lng])],
       Log DEBUG ''Location is already in coordinate form: {}'' [Val (PTuple [lat, lng])]],
      Inr (PTuple [lat, lng])) \<and>
   filter is_Geocode (fst (get_location_coordinates w location)) =
     (if is_pair location then [] else [Geocode location]) \<and>
   is_pair (PStr s) = False"
  using geocode_location_events [of w location]
  by (auto simp: get_location_coordinates_def is_pair_def split: prod.splits sum.splits)

text \<open>
  The claim as stated fails: \<open>main\<close> hands over the value of \<open>SEARCH_LOCATION\<close> as the
  string it read, and the string \<open>40.0,-73.0\<close> is sent to the geocoding endpoint.
\<close>

theorem coordinate_string_counterexample:
  "filter is_Geocode (fst (the (main (sample_world sample_env)))) = [Geocode (PStr ''40.0,-73.0'')]"
  by code_simp

section \<open>Configuration errors\<close>

lemma main_missing:
  assumes "missing_config (read_config w) \<noteq> []"
  shows "main w =
     Some (Log ERROR ''Missing required configuration. Please check your .env file.'' [] #
           map (\<lambda>item. Log ERROR ''Missing configuration: {}'' [Val (PStr item)])
             (missing_config (read_config w)), Inr ())"
  using assms
  by (auto simp: main_def missing_config_def Let_def split: option.splits if_splits)

lemma main_invalid:
  assumes "missing_config (read_config w) = []"
    and "builtin_int w (NUM_RESULTS (read_config w)) = Inl e1 \<or>
         (builtin_int w (NUM_RESULTS (read_config w)) = Inr n \<and> builtin_int w (SEARCH_RADIUS (read_config w)) = Inl e1)"
  shows "main w = Some ([Log ERROR ''Error in configuration values: {}'' [Exc e1]], Inr ())"
  using assms
  by (auto simp: main_def missing_config_def Let_def split: option.splits if_splits)

text \<open>
  Claim C9, as the code has it. If a required option is unset, \<open>main\<close> logs one line
  for each unset required option and returns. If none is unset and the result cap or the
  radius is not an integer, it logs the error of the first of the two that fails, and
  returns. In both cases the run consists of log records only: no provider call, no
  file, no insert.
\<close>

theorem configuration_errors_stop_the_run:
  assumes "missing_config (read_config w) \<noteq> [] \<or>
           builtin_int w (NUM_RESULTS (read_config w)) = Inl e1 \<or>
           builtin_int w (SEARCH_RADIUS (read_config w)) = Inl e2"
  shows "\<exists>tr. main w = Some (tr, Inr ()) \<and> list_all is_Log tr \<and>
           (if missing_config (read_config w) \<noteq> [] then
              tr = Log ERROR ''Missing required configuration. Please check your .env file.'' [] #
                   map (\<lambda>item. Log ERROR ''Missing configuration: {}'' [Val (PStr item)])
                     (missing_config (read_config w))
            else
              tr = [Log ERROR ''Error in configuration values: {}''
                      [Exc (case builtin_int w (NUM_RESULTS (read_config w)) of
                              Inl e \<Rightarrow> e
                            | Inr n \<Rightarrow> (case builtin_int w (SEARCH_RADIUS (read_config w)) of
                                          Inl e \<Rightarrow> e | Inr r \<Rightarrow> e2))]])"
proof (cases "missing_config (read_config w) \<noteq> []")
  case True
  from main_missing [OF True] True show ?thesis
    by (simp add: list_all_iff)
next
  case False
  then have m: "missing_config (read_config w) = []" by simp
  show ?thesis
  proof (cases "builtin_int w (NUM_RESULTS (read_config w))")
    case (Inl e)
    with main_invalid [OF m, of e] m show ?thesis by simp
  next
    case (Inr n)
    with assms m have "builtin_int w (SEARCH_RADIUS (read_config w)) = Inl e2" by simp
    with main_invalid [OF m, of e2 n] Inr m show ?thesis by simp
  qed
qed

theorem configuration_errors_stop_the_run_witness:
  "missing_config (read_config (sample_world [(''SEARCH_QUERY'', ''coffee''), (''NUM_RESULTS'', ''ten'')]))
     = [''GOOGLE_MAPS_API_KEY'', ''SEARCH_LOCATION''] \<and>
   main (sample_world [(''SEARCH_QUERY'', ''coffee''), (''NUM_RESULTS'', ''ten'')]) =
     Some ([Log ERROR ''Missing required configuration. Please check your .env file.'' [],
            Log ERROR ''Missing configuration: {}'' [Val (PStr ''GOOGLE_MAPS_API_KEY'')],
            Log ERROR ''Missing configuration: {}'' [Val (PStr ''SEARCH_LOCATION'')]], Inr ())"
proof -
  let ?w = "sample_world [(''SEARCH_QUERY'', ''coffee''), (''NUM_RESULTS'', ''ten'')]"
  have m: "missing_config (read_config ?w) = [''GOOGLE_MAPS_API_KEY'', ''SEARCH_LOCATION'']"
    by (simp add: missing_config_def read_config_def sample_world_def)
  then have "missing_config (read_config ?w) \<noteq> [] \<or>
           builtin_int ?w (NUM_RESULTS (read_config ?w)) = Inl e1 \<or>
           builtin_int ?w (SEARCH_RADIUS (read_config ?w)) = Inl e2" for e1 e2 by simp
  from configuration_errors_stop_the_run [OF this] m show ?thesis by auto
qed

text \<open>
  The claim as stated fails: with both numbers malformed, only the result cap is
  reported; nothing is logged about the radius.
\<close>

theorem invalid_radius_not_logged_counterexample:
  "main (sample_world [(''NUM_RESULTS'', ''abc''), (''SEARCH_RADIUS'', ''xyz''),
                       (''GOOGLE_MAPS_API_KEY'', ''AIza''), (''SEARCH_LOCATION'', ''Paris''),
                       (''SEARCH_QUERY'', ''coffee'')]) =
     Some ([Log ERROR ''Error in configuration values: {}''
              [Exc (ValueError ''invalid literal for int() with base 10: abc'')]], Inr ()) \<and>
   builtin_int (sample_world []) ''xyz'' = Inl (ValueError ''invalid literal for int() with base 10: xyz'')"
  by code_simp

section \<open>A location that cannot be resolved\<close>








section \<open>The orchestrator writes nothing\<close>




lemma length_as_completed: "length (as_completed w futs) = length futs"
  by (simp add: as_completed_def)





section \<open>The number of records\<close>

lemma length_submit_all: "length (fst (submit_all results)) \<le> length results"
  by (induction results) (auto split: sum.splits prod.splits)

lemma length_successes:
  "length (concat (map (\<lambda>f. case snd f of Inl e \<Rightarrow> [] | Inr d \<Rightarrow> [d]) futs)) \<le> length futs"
  by (induction futs) (auto split: sum.splits)

lemma length_enrich:
  assumes "enrich w results = (tr, Inr data)"
  shows "length data \<le> length results"
proof -
  obtain ids failure where s: "submit_all results = (ids, failure)"
    by (cases "submit_all results")
  let ?futs = "as_completed w (map (\<lambda>p. get_place_details w (fst p) (snd p)) (enumerate 0 ids))"
  from assms s have "data = concat (map (\<lambda>f. case snd f of Inl e \<Rightarrow> [] | Inr d \<Rightarrow> [d]) ?futs)"
    by (cases failure) (auto simp: enrich_def Let_def)
  then have "length data \<le> length ?futs" using length_successes [of ?futs] by simp
  also have "\<dots> = length ids" by (simp add: length_as_completed)
  also have "\<dots> \<le> length results" using length_submit_all [of results] s by simp
  finally show ?thesis .
qed

lemma length_py_slice_to: "0 \<le> n \<Longrightarrow> int (length (py_slice_to xs n)) \<le> n"
  by (simp add: py_slice_to_def)

lemma search_loop_cap_reached:
  "num_results \<le> int (length results) \<Longrightarrow>
   search_loop w query coords radius num_results i results next_page_token tr = Some (tr, results, i)"
  by (subst search_loop.simps) simp

text \<open>
  Claim C2, as the code has it. Whatever the provider returns, a list of records that
  \<open>get_google_maps_data\<close> produces has at most \<open>num_results\<close> entries when the cap is not
  negative, and is empty when it is negative: the accumulated results are cut to the
  cap before the pool runs, and the pool returns at most one record per result.
\<close>

theorem record_count_within_cap:
  assumes "get_google_maps_data w api_key location query num_results radius = Some (tr, Inr data)"
  shows "int (length data) \<le> max 0 num_results"
proof (cases "gmaps_Client w api_key")
  case (Some e)
  with assms show ?thesis by (simp add: get_google_maps_data_def)
next
  case None
  obtain tr1 c where g: "get_location_coordinates w location = (tr1, c)"
    by (cases "get_location_coordinates w location")
  show ?thesis
  proof (cases c)
    case (Inl e)
    with assms None g show ?thesis by (auto simp: get_google_maps_data_def)
  next
    case (Inr coords)
    show ?thesis
    proof (cases "search_loop w query coords radius num_results 0 [] PNone []")
      case None
      with assms \<open>gmaps_Client w api_key = None\<close> g Inr show ?thesis
        by (simp add: get_google_maps_data_def)
    next
      case (Some y)
      obtain tr2 results n where y: "y = (tr2, results, n)" by (cases y)
      obtain tr3 d where e: "enrich w (py_slice_to results num_results) = (tr3, d)"
        by (cases "enrich w (py_slice_to results num_results)")
      from assms \<open>gmaps_Client w api_key = None\<close> g Inr Some y e have d: "d = Inr data"
        by (cases d) (auto simp: get_google_maps_data_def)
      have le: "length data \<le> length (py_slice_to results num_results)"
        using length_enrich e d by simp
      show ?thesis
      proof (cases "0 \<le> num_results")
        case True
        with le length_py_slice_to [OF True, of results] show ?thesis by simp
      next
        case False
        then have "search_loop w query coords radius num_results 0 [] PNone [] = Some ([], [], 0)"
          by (intro search_loop_cap_reached) simp
        with Some y have "results = []" by simp
        then have "py_slice_to results num_results = []" by (simp add: py_slice_to_def)
        with le show ?thesis by simp
      qed
    qed
  qed
qed

theorem record_count_within_cap_witness:
  "map_option (\<lambda>p. map_sum id length (snd p))
     (get_google_maps_data (sample_world []) (PStr ''AIza'') (PStr ''Paris'') (PStr ''coffee'') 2 50000)
     = Some (Inr 2) \<and> int 2 \<le> max 0 2"
proof -
  let ?w = "sample_world []"
  have ev: "map_option (\<lambda>p. map_sum id length (snd p))
     (get_google_maps_data ?w (PStr ''AIza'') (PStr ''Paris'') (PStr ''coffee'') 2 50000) = Some (Inr 2)"
    by code_simp
  then obtain tr data
    where g: "get_google_maps_data ?w (PStr ''AIza'') (PStr ''Paris'') (PStr ''coffee'') 2 50000
                = Some (tr, Inr data)" and l: "length data = 2"
    apply (auto split: option.splits sum.splits prod.splits)
    subgoal for x1 x2a by (cases x2a) auto
    done
  from record_count_within_cap [OF g] l ev show ?thesis by simp
qed

text \<open>
  The claim as stated fails for a negative cap, which \<open>int()\<close> accepts: the list is
  empty, and its length is not at most the cap.
\<close>

theorem negative_cap_counterexample:
  "map_option (\<lambda>p. map_sum id length (snd p))
     (get_google_maps_data (sample_world []) (PStr ''AIza'') (PStr ''Paris'') (PStr ''coffee'') (- 1) 50000)
     = Some (Inr 0) \<and> \<not> int 0 \<le> - 1 \<and> builtin_int (sample_world []) ''-1'' = Inr (- 1)"
  by code_simp

section \<open>Persistence\<close>



text \<open>
  Claim C5, as the code has it. \<open>save_to_file\<close> has no case of its own for the empty
  list: it hands the list to the table writer and to \<open>json.dump\<close>, and fails only if one
  of them or \<open>open\<close> raises. When they do not, both files are written: the structured
  file is the empty array, and the table has no columns, since the columns are the keys
  of the records and there is no record; its header row is empty, and there are no
  rows.
\<close>

theorem save_to_file_empty:
  assumes "DataFrame_to_csv w [] (stem @ ''.csv'') = None"
    and "builtin_open w (stem @ ''.json'') = None"
    and "json_dump w (PList []) (stem @ ''.json'') = None"
  shows "save_to_file w [] stem True True =
     ([Write_file (stem @ ''.csv'') (Csv [] []),
       Log INFO ''Data saved to CSV: {}'' [Val (PStr (stem @ ''.csv''))],
       Write_file (stem @ ''.json'') (Json (PList [])),
       Log INFO ''Data saved to JSON: {}'' [Val (PStr (stem @ ''.json''))]], Inr ())"
  using assms
  by (simp add: save_to_file_def save_csv_def save_json_def to_csv_def DataFrame_columns_def)

theorem save_to_file_empty_witness:
  "DataFrame_to_csv (sample_world []) [] (''output'' @ ''.csv'') = None \<and>
   builtin_open (sample_world []) (''output'' @ ''.json'') = None \<and>
   json_dump (sample_world []) (PList []) (''output'' @ ''.json'') = None \<and>
   save_to_file (sample_world []) [] ''output'' True True =
     ([Write_file ''output.csv'' (Csv [] []),
       Log INFO ''Data saved to CSV: {}'' [Val (PStr ''output.csv'')],
       Write_file ''output.json'' (Json (PList [])),
       Log INFO ''Data saved to JSON: {}'' [Val (PStr ''output.json'')]], Inr ())"
proof -
  have h1: "DataFrame_to_csv (sample_world []) [] (''output'' @ ''.csv'') = None"
    and h2: "builtin_open (sample_world []) (''output'' @ ''.json'') = None"
    and h3: "json_dump (sample_world []) (PList []) (''output'' @ ''.json'') = None"
    by (simp_all add: sample_world_def read_only_def)
  from save_to_file_empty [OF h1 h2 h3] h1 h2 h3 show ?thesis by simp
qed

text \<open>
  The claim as stated fails twice. The header row of the empty table is not the field
  names; and the function can fail, as for any list, when a file cannot be written.
\<close>

theorem save_to_file_empty_header_counterexample:
  "Write_file ''output.csv'' (Csv PlaceRecord_fields []) \<notin> set (fst (save_to_file (sample_world []) [] ''output'' True True)) \<and>
   Write_file ''output.csv'' (Csv [] []) \<in> set (fst (save_to_file (sample_world []) [] ''output'' True True)) \<and>
   save_to_file (sample_world []) [] ''/readonly/output'' True True =
     ([Write_failed ''/readonly/output.csv'' (External ''PermissionError'')],
      Inl (External ''PermissionError''))"
  by (simp add: save_to_file_def save_csv_def save_json_def to_csv_def DataFrame_columns_def
      PlaceRecord_fields_def sample_world_def read_only_def)

text \<open>With a record of the enricher in the list, the header row is the field names.\<close>

lemma DataFrame_columns_record:
  "DataFrame_columns
     [[(''Name'', a), (''Address'', b), (''Phone'', c), (''Website'', d), (''Email'', e),
       (''Rating'', f), (''Reviews'', g), (''Types'', h)]] = PlaceRecord_fields"
  by (simp add: DataFrame_columns_def PlaceRecord_fields_def)

section \<open>A sync option is missing\<close>






section \<open>Pagination\<close>













end
